theory Spec2Isabelle
  imports Complex_Main
begin

section \<open>The signal overlay engine (signal-overlay-engine.ts)\<close>

text \<open>
  A shallow embedding of class \<open>SignalOverlayEngine\<close>: the tick buffer, the distribution
  analysis, the detection poll, the countdown callback and the teardown.

  Conventions of the embedding.
  \<^item> A JavaScript number is a \<open>jsnum\<close>: a finite value (every finite double is a rational),
    the two infinities, or NaN. Sums, products and quotients of finite values are taken
    exactly, without the rounding of doubles. For a window of 50 samples the double
    results of the source agree with the exact ones in every comparison with 60 and in
    every confidence score (\<open>k / 50 * 100\<close> is inexact in doubles only for k = 7, 14,
    28, 29, none of which reaches the threshold). The rounding of \<open>price * 100\<close> can
    only change which quotes have which last digit; the statements below speak of the
    samples that classify high, whichever they are, and the concrete quotes 0.75 and 0.5
    have the exact double products 75 and 50.
  \<^item> \<open>Date.now()\<close> is a parameter of every operation that reads the clock (an \<open>int\<close>,
    milliseconds).
  \<^item> The browser's interval timers are the set \<open>timers\<close> of live handles; \<open>setInterval\<close>
    adds a fresh handle, \<open>clearInterval\<close> removes one. A handle is truthy, and so is a
    subscription id.
  \<^item> The calls made to the \<open>onSignalUpdate\<close> callback are recorded, oldest first, in
    \<open>delivered\<close>; the calls made to \<open>derivAPIService.unsubscribe\<close> in \<open>unsubscribed\<close>.
  \<^item> Console output is not modelled. \<open>initialize\<close>, \<open>connectToDerivAPI\<close> and
    \<open>waitForAPI\<close> (asynchronous exchanges with the external API, with their retry
    timeouts) and the trade outcome fields are outside the embedding, except for the tick
    callback that \<open>connectToDerivAPI\<close> registers.
\<close>

subsection \<open>JavaScript numbers\<close>

datatype jsnum = Num rat | PosInf | NegInf | NaN

text \<open>Truthiness of a number: everything except 0 and NaN.\<close>

fun truthy :: "jsnum \<Rightarrow> bool" where
  "truthy (Num r) = (r \<noteq> 0)"
| "truthy PosInf = True"
| "truthy NegInf = True"
| "truthy NaN = False"

text \<open>\<open>Number.isFinite\<close>, the notion of a finite numeric value.\<close>

fun is_finite :: "jsnum \<Rightarrow> bool" where
  "is_finite (Num r) = True"
| "is_finite PosInf = False"
| "is_finite NegInf = False"
| "is_finite NaN = False"

text \<open>Comparisons with a finite constant; every comparison with NaN is false.\<close>

fun js_ge :: "jsnum \<Rightarrow> rat \<Rightarrow> bool" where
  "js_ge (Num x) c = (x \<ge> c)"
| "js_ge PosInf c = True"
| "js_ge NegInf c = False"
| "js_ge NaN c = False"

fun js_gt :: "jsnum \<Rightarrow> rat \<Rightarrow> bool" where
  "js_gt (Num x) c = (x > c)"
| "js_gt PosInf c = True"
| "js_gt NegInf c = False"
| "js_gt NaN c = False"

fun js_lt :: "jsnum \<Rightarrow> rat \<Rightarrow> bool" where
  "js_lt (Num x) c = (x < c)"
| "js_lt PosInf c = False"
| "js_lt NegInf c = True"
| "js_lt NaN c = False"

text \<open>\<open>x + c\<close> and \<open>Math.min(c, x)\<close> for a finite constant c, and \<open>Math.round\<close>
  (round half up).\<close>

fun js_plus :: "jsnum \<Rightarrow> rat \<Rightarrow> jsnum" where
  "js_plus (Num x) c = Num (x + c)"
| "js_plus PosInf c = PosInf"
| "js_plus NegInf c = NegInf"
| "js_plus NaN c = NaN"

fun math_min :: "rat \<Rightarrow> jsnum \<Rightarrow> jsnum" where
  "math_min c (Num x) = Num (min c x)"
| "math_min c PosInf = Num c"
| "math_min c NegInf = NegInf"
| "math_min c NaN = NaN"

fun math_round :: "jsnum \<Rightarrow> jsnum" where
  "math_round (Num x) = Num (of_int \<lfloor>x + 1 / 2\<rfloor>)"
| "math_round PosInf = PosInf"
| "math_round NegInf = NegInf"
| "math_round NaN = NaN"

subsection \<open>Data (types.ts)\<close>

record TickData =
  quote :: jsnum
  epoch :: jsnum

text \<open>What the tick stream hands to the callback: \<open>tickData?.tick\<close> may be absent
  (\<open>None\<close>), and so may each of its fields.\<close>

record RawTick =
  raw_quote :: "jsnum option"
  raw_epoch :: "jsnum option"

datatype Bias = OVER | UNDER | NEUTRAL

record DistributionAnalysis =
  recentTicks :: "jsnum list"
  overCount :: nat
  underCount :: nat
  overPercentage :: jsnum
  underPercentage :: jsnum
  bias :: Bias
  confidenceScore :: jsnum

text \<open>The identifier \<open>signal-${Date.now()}\<close>: the constant prefix followed by the clock
  reading, kept as the reading itself.\<close>

datatype signal_id = SignalId int

record SignalData =
  sid :: signal_id
  type :: Bias
  market :: string
  confidence :: jsnum
  createdAt :: int
  expiresAt :: int
  remainingSeconds :: int
  distributionAnalysis :: DistributionAnalysis

record NumericSignalConfig =
  prediction1 :: rat
  prediction2 :: rat
  takeProfit :: rat
  stopLoss :: rat

subsection \<open>Engine state\<close>

text \<open>
  The fields of the class. \<open>onSignalUpdate\<close> tells whether a callback is registered;
  \<open>unsubscribe\<close> holds the subscription id captured by the stored closure. The last
  four fields are the environment: live interval handles, the next fresh handle, the
  unsubscribe requests issued and the callback invocations made.
\<close>

record engine =
  config :: "NumericSignalConfig option"
  onSignalUpdate :: bool
  currentSignal :: "SignalData option"
  tickBuffer :: "TickData list"
  unsubscribe :: "nat option"
  countdownInterval :: "nat option"
  signalGenerationInterval :: "nat option"
  isInitialized :: bool
  activeSignalIds :: "signal_id set"
  timers :: "nat set"
  nextHandle :: nat
  unsubscribed :: "nat list"
  delivered :: "SignalData option list"

definition SIGNAL_DURATION :: int where
  "SIGNAL_DURATION = 120"

definition MIN_TICKS_FOR_ANALYSIS :: nat where
  "MIN_TICKS_FOR_ANALYSIS = 50"

definition CONFIDENCE_THRESHOLD :: rat where
  "CONFIDENCE_THRESHOLD = 65"

definition TICK_BUFFER_SIZE :: nat where
  "TICK_BUFFER_SIZE = 100"

definition MARKET :: string where
  "MARKET = ''R_50''"

text \<open>The field initialisers of the class.\<close>

definition initial :: engine where
  "initial = \<lparr> config = None, onSignalUpdate = False, currentSignal = None,
     tickBuffer = [], unsubscribe = None, countdownInterval = None,
     signalGenerationInterval = None, isInitialized = False, activeSignalIds = {},
     timers = {}, nextHandle = 1, unsubscribed = [], delivered = [] \<rparr>"

subsection \<open>Environment primitives\<close>

definition clearInterval :: "nat \<Rightarrow> engine \<Rightarrow> engine" where
  "clearInterval h s = s\<lparr>timers := timers s - {h}\<rparr>"

text \<open>\<open>setInterval\<close>: the new handle is \<open>nextHandle\<close> of the state before the call.\<close>

definition setInterval :: "engine \<Rightarrow> engine" where
  "setInterval s = s\<lparr>timers := insert (nextHandle s) (timers s), nextHandle := Suc (nextHandle s)\<rparr>"

text \<open>\<open>if (this.onSignalUpdate) this.onSignalUpdate(x)\<close>.\<close>

definition notify :: "SignalData option \<Rightarrow> engine \<Rightarrow> engine" where
  "notify x s = (if onSignalUpdate s then s\<lparr>delivered := delivered s @ [x]\<rparr> else s)"

subsection \<open>Tick ingestion\<close>

text \<open>\<open>handleTickData\<close>: push, then shift once if the length exceeds the capacity.\<close>

definition handleTickData :: "TickData \<Rightarrow> engine \<Rightarrow> engine" where
  "handleTickData tick s =
     (let pushed = tickBuffer s @ [tick]
      in s\<lparr>tickBuffer := (if length pushed > TICK_BUFFER_SIZE then tl pushed else pushed)\<rparr>)"

text \<open>The callback given to \<open>subscribeToTicks\<close>: the tick must be present and
  \<open>quote && epoch\<close> must be truthy; a missing field is \<open>undefined\<close>, which is falsy.\<close>

definition tickCallback :: "RawTick option \<Rightarrow> engine \<Rightarrow> engine" where
  "tickCallback tickData s =
     (case tickData of
        None \<Rightarrow> s
      | Some t \<Rightarrow>
          (case raw_quote t of
             None \<Rightarrow> s
           | Some q \<Rightarrow>
               (case raw_epoch t of
                  None \<Rightarrow> s
                | Some e \<Rightarrow>
                    if truthy q \<and> truthy e
                    then handleTickData \<lparr>quote = q, epoch = e\<rparr> s
                    else s)))"

subsection \<open>Distribution analysis\<close>

text \<open>\<open>Math.abs(Math.floor(price * 100)) % 10\<close>; an infinite or NaN price gives NaN.\<close>

fun lastDigit :: "jsnum \<Rightarrow> jsnum" where
  "lastDigit (Num price) = Num (of_int (\<bar>\<lfloor>price * 100\<rfloor>\<bar> mod 10))"
| "lastDigit PosInf = NaN"
| "lastDigit NegInf = NaN"
| "lastDigit NaN = NaN"

text \<open>The \<open>forEach\<close> loop over the digits, with its two counters.\<close>

fun countDigits :: "jsnum list \<Rightarrow> nat \<Rightarrow> nat \<Rightarrow> nat \<times> nat" where
  "countDigits [] oc uc = (oc, uc)"
| "countDigits (digit # rest) oc uc =
     (if js_ge digit 5 then countDigits rest (Suc oc) uc else countDigits rest oc (Suc uc))"

text \<open>\<open>(count / total) * 100\<close>; 0 / 0 is NaN and a positive count over 0 is Infinity.\<close>

definition percentage :: "nat \<Rightarrow> nat \<Rightarrow> jsnum" where
  "percentage count total_n =
     (if total_n = 0 then (if count = 0 then NaN else PosInf)
      else Num (of_nat count / of_nat total_n * 100))"

text \<open>\<open>Array.prototype.slice(-n)\<close>: the last n elements, the whole array when shorter.\<close>

definition slice_last :: "nat \<Rightarrow> 'a list \<Rightarrow> 'a list" where
  "slice_last n xs = drop (length xs - n) xs"

definition analyzeDistribution :: "engine \<Rightarrow> DistributionAnalysis" where
  "analyzeDistribution s =
     (let recent = slice_last MIN_TICKS_FOR_ANALYSIS (tickBuffer s);
          lastDigits = map (\<lambda>tick. lastDigit (quote tick)) recent;
          counts = countDigits lastDigits 0 0;
          total_n = length lastDigits;
          overPct = percentage (fst counts) total_n;
          underPct = percentage (snd counts) total_n;
          verdict =
            (if js_gt overPct 60 then (UNDER, math_min 95 (js_plus overPct 5))
             else if js_gt underPct 60 then (OVER, math_min 95 (js_plus underPct 5))
             else (NEUTRAL, Num 50))
      in \<lparr> recentTicks = lastDigits, overCount = fst counts, underCount = snd counts,
           overPercentage = overPct, underPercentage = underPct,
           bias = fst verdict, confidenceScore = snd verdict \<rparr>)"

subsection \<open>Signal lifecycle\<close>

definition clearCurrentSignal :: "engine \<Rightarrow> engine" where
  "clearCurrentSignal s =
     (case currentSignal s of
        None \<Rightarrow> s
      | Some g \<Rightarrow>
          (let s1 = s\<lparr>activeSignalIds := activeSignalIds s - {sid g}, currentSignal := None\<rparr>;
               s2 = (case countdownInterval s1 of
                       None \<Rightarrow> s1
                     | Some h \<Rightarrow> (clearInterval h s1)\<lparr>countdownInterval := None\<rparr>)
           in notify None s2))"

text \<open>The function passed to \<open>setInterval\<close> in \<open>startCountdown\<close>, run at clock reading
  \<open>now\<close>. The quotient of two integers below \<open>2^53\<close> by 1000, floored, is the integer
  floor division.\<close>

definition countdownCallback :: "int \<Rightarrow> engine \<Rightarrow> engine" where
  "countdownCallback now s =
     (case currentSignal s of
        None \<Rightarrow> (case countdownInterval s of None \<Rightarrow> s | Some h \<Rightarrow> clearInterval h s)
      | Some g \<Rightarrow>
          (let remainingMs = expiresAt g - now;
               remaining = max 0 (remainingMs div 1000);
               s1 = s\<lparr>currentSignal := Some (g\<lparr>remainingSeconds := remaining\<rparr>)\<rparr>;
               s2 = notify (currentSignal s1) s1
           in if remaining \<le> 0 then clearCurrentSignal s2 else s2))"

definition startCountdown :: "engine \<Rightarrow> engine" where
  "startCountdown s =
     (let s1 = (case countdownInterval s of None \<Rightarrow> s | Some h \<Rightarrow> clearInterval h s)
      in (setInterval s1)\<lparr>countdownInterval := Some (nextHandle s1)\<rparr>)"

definition startSignalGeneration :: "engine \<Rightarrow> engine" where
  "startSignalGeneration s =
     (let s1 = (case signalGenerationInterval s of None \<Rightarrow> s | Some h \<Rightarrow> clearInterval h s)
      in (setInterval s1)\<lparr>signalGenerationInterval := Some (nextHandle s1)\<rparr>)"

text \<open>\<open>generateSignal\<close> reads the clock twice: \<open>idNow\<close> for the identifier, \<open>now\<close> for
  the creation time.\<close>

definition generateSignal :: "DistributionAnalysis \<Rightarrow> int \<Rightarrow> int \<Rightarrow> engine \<Rightarrow> engine" where
  "generateSignal analysis idNow now s =
     (let signalId = SignalId idNow
      in if signalId \<in> activeSignalIds s then s
         else
           (let expires = now + SIGNAL_DURATION * 1000;
                signal = \<lparr> sid = signalId, type = bias analysis, market = MARKET,
                           confidence = math_round (confidenceScore analysis),
                           createdAt = now, expiresAt = expires,
                           remainingSeconds = SIGNAL_DURATION,
                           distributionAnalysis = analysis \<rparr>;
                s1 = s\<lparr>currentSignal := Some signal,
                       activeSignalIds := insert signalId (activeSignalIds s)\<rparr>;
                s2 = notify (Some signal) s1
            in startCountdown s2))"

definition checkAndGenerateSignal :: "int \<Rightarrow> int \<Rightarrow> engine \<Rightarrow> engine" where
  "checkAndGenerateSignal idNow now s =
     (if currentSignal s \<noteq> None then s
      else if length (tickBuffer s) < MIN_TICKS_FOR_ANALYSIS then s
      else
        (let analysis = analyzeDistribution s
         in if js_lt (confidenceScore analysis) CONFIDENCE_THRESHOLD then s
            else if bias analysis \<noteq> NEUTRAL then generateSignal analysis idNow now s
            else s))"

definition reload :: "NumericSignalConfig \<Rightarrow> engine \<Rightarrow> engine" where
  "reload cfg s = clearCurrentSignal (s\<lparr>config := Some cfg\<rparr>)"

definition destroy :: "engine \<Rightarrow> engine" where
  "destroy s =
     (let s1 = (case unsubscribe s of
                  None \<Rightarrow> s
                | Some sub \<Rightarrow> s\<lparr>unsubscribed := unsubscribed s @ [sub], unsubscribe := None\<rparr>);
          s2 = (case countdownInterval s1 of
                  None \<Rightarrow> s1
                | Some h \<Rightarrow> (clearInterval h s1)\<lparr>countdownInterval := None\<rparr>);
          s3 = (case signalGenerationInterval s2 of
                  None \<Rightarrow> s2
                | Some h \<Rightarrow> (clearInterval h s2)\<lparr>signalGenerationInterval := None\<rparr>)
      in s3\<lparr>currentSignal := None, tickBuffer := [], activeSignalIds := {},
            isInitialized := False\<rparr>)"

subsection \<open>Runs of the engine\<close>

text \<open>The callbacks and methods that the event loop and the component may invoke, and
  a run as the left-to-right execution of a list of them.\<close>

datatype event =
    Delivery "RawTick option"
  | DetectionPoll int int
  | CountdownTick int
  | Reload NumericSignalConfig
  | Destroy

fun step :: "event \<Rightarrow> engine \<Rightarrow> engine" where
  "step (Delivery tickData) s = tickCallback tickData s"
| "step (DetectionPoll idNow now) s = checkAndGenerateSignal idNow now s"
| "step (CountdownTick now) s = countdownCallback now s"
| "step (Reload cfg) s = reload cfg s"
| "step Destroy s = destroy s"

fun run :: "event list \<Rightarrow> engine \<Rightarrow> engine" where
  "run [] s = s"
| "run (e # es) s = run es (step e s)"

text \<open>Invariants of the reachable states: the identifier set holds exactly the
  identifier of the active signal, and every live interval is held in one of the two
  handle fields.\<close>

definition ids_tracked :: "engine \<Rightarrow> bool" where
  "ids_tracked s =
     (activeSignalIds s = (case currentSignal s of None \<Rightarrow> {} | Some g \<Rightarrow> {sid g}))"

definition timers_tracked :: "engine \<Rightarrow> bool" where
  "timers_tracked s =
     (timers s \<subseteq> set_option (countdownInterval s) \<union> set_option (signalGenerationInterval s))"

subsection \<open>Notions used in the statements\<close>

text \<open>The window the analysis looks at (\<open>recentTicks\<close> in \<open>analyzeDistribution\<close>), the
  test \<open>digit >= 5\<close> applied to a buffered sample, and the number of samples of the
  window that pass it.\<close>

definition recentWindow :: "engine \<Rightarrow> TickData list" where
  "recentWindow s = slice_last MIN_TICKS_FOR_ANALYSIS (tickBuffer s)"

definition classifiedOver :: "TickData \<Rightarrow> bool" where
  "classifiedOver tick = js_ge (lastDigit (quote tick)) 5"

definition highCount :: "engine \<Rightarrow> nat" where
  "highCount s = length (filter classifiedOver (recentWindow s))"

text \<open>The remaining seconds that the countdown callback computes at clock reading
  \<open>now\<close> for a signal expiring at \<open>expires\<close>.\<close>

definition remainingAt :: "int \<Rightarrow> int \<Rightarrow> int" where
  "remainingAt expires now = max 0 ((expires - now) div 1000)"

subsection \<open>Concrete inputs\<close>

text \<open>A sample whose last digit is 5 (quote 0.75) and one whose last digit is 0
  (quote 0.5); an engine as a successful \<open>initialize\<close> leaves it (callback registered,
  subscription 7 held, detection poll running on handle 1).\<close>

definition hi_tick :: TickData where
  "hi_tick = \<lparr>quote = Num (3 / 4), epoch = Num 1\<rparr>"

definition lo_tick :: TickData where
  "lo_tick = \<lparr>quote = Num (1 / 2), epoch = Num 1\<rparr>"

definition started :: engine where
  "started = (startSignalGeneration (initial\<lparr>onSignalUpdate := True, unsubscribe := Some 7\<rparr>))
               \<lparr>isInitialized := True\<rparr>"

definition with_buffer :: "TickData list \<Rightarrow> engine" where
  "with_buffer ticks = fold handleTickData ticks started"

text \<open>The buffer of 31 high and 19 low samples, the idle engine holding it, and the
  engine after the detection poll at clock reading 1000 has created a signal from it.\<close>

definition scenario_buffer :: "TickData list" where
  "scenario_buffer = replicate 31 hi_tick @ replicate 19 lo_tick"

definition idle_example :: engine where
  "idle_example = with_buffer scenario_buffer"

definition active_example :: engine where
  "active_example = checkAndGenerateSignal 1000 1000 idle_example"

text \<open>The active engine 75 seconds after the signal was created: 45 seconds remain.\<close>

definition mid_countdown_example :: engine where
  "mid_countdown_example = countdownCallback 76000 active_example"

section \<open>Auxiliary facts\<close>

subsection \<open>The buffer\<close>

lemma handleTickData_buffer:
  "tickBuffer (handleTickData t s) =
     (if length (tickBuffer s) \<ge> TICK_BUFFER_SIZE then tl (tickBuffer s @ [t]) else tickBuffer s @ [t])"
  by (simp add: handleTickData_def Let_def)

lemma slice_last_snoc:
  assumes "length xs \<le> n"
  shows "slice_last n (xs @ [x]) = (if length xs \<ge> n then tl (xs @ [x]) else xs @ [x])"
  using assms by (cases xs) (auto simp: slice_last_def drop_Cons' Suc_diff_le)

lemma slice_last_length: "length (slice_last n xs) = min n (length xs)"
  by (simp add: slice_last_def)

lemma slice_last_slice_last: "slice_last n (slice_last n xs @ ys) = slice_last n (xs @ ys)"
proof -
  have "length xs + length ys - (length xs - n + n) + (length xs - n) = length xs + length ys - n"
    by arith
  then show ?thesis by (simp add: slice_last_def)
qed

lemma slice_last_short: "length xs \<le> n \<Longrightarrow> slice_last n xs = xs"
  by (simp add: slice_last_def)

lemma fold_handleTickData:
  "length (tickBuffer s) \<le> TICK_BUFFER_SIZE \<Longrightarrow>
   tickBuffer (fold handleTickData ticks s) = slice_last TICK_BUFFER_SIZE (tickBuffer s @ ticks)"
proof (induction ticks arbitrary: s)
  case Nil
  then show ?case by (simp add: slice_last_short)
next
  case (Cons t ticks)
  have step: "tickBuffer (handleTickData t s) = slice_last TICK_BUFFER_SIZE (tickBuffer s @ [t])"
    using Cons.prems by (simp add: handleTickData_buffer slice_last_snoc)
  then have len: "length (tickBuffer (handleTickData t s)) \<le> TICK_BUFFER_SIZE"
    by (simp add: slice_last_length)
  have "tickBuffer (fold handleTickData (t # ticks) s)
      = slice_last TICK_BUFFER_SIZE (tickBuffer (handleTickData t s) @ ticks)"
    using Cons.IH [OF len] by simp
  also have "\<dots> = slice_last TICK_BUFFER_SIZE ((tickBuffer s @ [t]) @ ticks)"
    unfolding step by (rule slice_last_slice_last)
  finally show ?case by simp
qed

lemma notify_fields [simp]:
  "tickBuffer (notify x s) = tickBuffer s"
  "currentSignal (notify x s) = currentSignal s"
  "activeSignalIds (notify x s) = activeSignalIds s"
  "timers (notify x s) = timers s"
  "countdownInterval (notify x s) = countdownInterval s"
  "signalGenerationInterval (notify x s) = signalGenerationInterval s"
  "nextHandle (notify x s) = nextHandle s"
  "onSignalUpdate (notify x s) = onSignalUpdate s"
  "unsubscribe (notify x s) = unsubscribe s"
  "unsubscribed (notify x s) = unsubscribed s"
  "isInitialized (notify x s) = isInitialized s"
  "delivered (notify x s) = (if onSignalUpdate s then delivered s @ [x] else delivered s)"
  by (simp_all add: notify_def)

lemma clearCurrentSignal_tickBuffer [simp]:
  "tickBuffer (clearCurrentSignal s) = tickBuffer s"
  by (simp add: clearCurrentSignal_def clearInterval_def Let_def split: option.splits)

lemma countdownCallback_tickBuffer [simp]:
  "tickBuffer (countdownCallback now s) = tickBuffer s"
  by (simp add: countdownCallback_def clearInterval_def Let_def split: option.splits)

lemma startCountdown_tickBuffer [simp]:
  "tickBuffer (startCountdown s) = tickBuffer s"
  by (simp add: startCountdown_def setInterval_def clearInterval_def Let_def split: option.splits)

lemma generateSignal_tickBuffer [simp]:
  "tickBuffer (generateSignal a idNow now s) = tickBuffer s"
  by (simp add: generateSignal_def Let_def)

lemma checkAndGenerateSignal_tickBuffer [simp]:
  "tickBuffer (checkAndGenerateSignal idNow now s) = tickBuffer s"
  by (simp add: checkAndGenerateSignal_def Let_def)

lemma reload_tickBuffer [simp]: "tickBuffer (reload cfg s) = tickBuffer s"
  by (simp add: reload_def)

lemma destroy_tickBuffer [simp]: "tickBuffer (destroy s) = []"
  by (simp add: destroy_def Let_def)

lemma handleTickData_bounded:
  "length (tickBuffer s) \<le> TICK_BUFFER_SIZE \<Longrightarrow>
   length (tickBuffer (handleTickData t s)) \<le> TICK_BUFFER_SIZE"
  by (simp add: handleTickData_buffer)

lemma tickCallback_bounded:
  "length (tickBuffer s) \<le> TICK_BUFFER_SIZE \<Longrightarrow>
   length (tickBuffer (tickCallback m s)) \<le> TICK_BUFFER_SIZE"
  by (simp add: tickCallback_def handleTickData_bounded split: option.splits)

lemma step_bounded:
  "length (tickBuffer s) \<le> TICK_BUFFER_SIZE \<Longrightarrow>
   length (tickBuffer (step e s)) \<le> TICK_BUFFER_SIZE"
  by (cases e) (simp_all add: tickCallback_bounded)

lemma run_bounded:
  "length (tickBuffer s) \<le> TICK_BUFFER_SIZE \<Longrightarrow>
   length (tickBuffer (run evs s)) \<le> TICK_BUFFER_SIZE"
  by (induction evs arbitrary: s) (simp_all add: step_bounded)


subsection \<open>The analysis\<close>

lemma countDigits_filter:
  "countDigits ds oc uc =
     (oc + length (filter (\<lambda>d. js_ge d 5) ds), uc + length (filter (\<lambda>d. \<not> js_ge d 5) ds))"
  by (induction ds arbitrary: oc uc) simp_all

lemma window_counts:
  "countDigits (map (\<lambda>tick. lastDigit (quote tick)) (recentWindow s)) 0 0 =
     (highCount s, length (recentWindow s) - highCount s)"
proof -
  let ?w = "recentWindow s"
  let ?P = "\<lambda>t. js_ge (lastDigit (quote t)) 5"
  have a: "length (filter ?P ?w) = highCount s"
    unfolding highCount_def classifiedOver_def [abs_def] ..
  have "length (filter ?P ?w) + length (filter (\<lambda>t. \<not> ?P t) ?w) = length ?w"
    by (rule sum_length_filter_compl)
  then have b: "length (filter (\<lambda>t. \<not> ?P t) ?w) = length ?w - highCount s"
    using a by simp
  show ?thesis
    by (simp add: countDigits_filter filter_map o_def a b)
qed

lemma analyzeDistribution_window:
  "analyzeDistribution s =
     (let n = length (recentWindow s); k = highCount s;
          overPct = percentage k n; underPct = percentage (n - k) n;
          verdict =
            (if js_gt overPct 60 then (UNDER, math_min 95 (js_plus overPct 5))
             else if js_gt underPct 60 then (OVER, math_min 95 (js_plus underPct 5))
             else (NEUTRAL, Num 50))
      in \<lparr> recentTicks = map (\<lambda>tick. lastDigit (quote tick)) (recentWindow s),
           overCount = k, underCount = n - k,
           overPercentage = overPct, underPercentage = underPct,
           bias = fst verdict, confidenceScore = snd verdict \<rparr>)"
  using window_counts [of s]
  by (simp add: analyzeDistribution_def Let_def recentWindow_def [symmetric])

lemma highCount_le: "highCount s \<le> length (recentWindow s)"
  by (simp add: highCount_def)

lemma window_full:
  "MIN_TICKS_FOR_ANALYSIS \<le> length (tickBuffer s) \<Longrightarrow> length (recentWindow s) = 50"
  by (simp add: recentWindow_def slice_last_length MIN_TICKS_FOR_ANALYSIS_def)

lemma percentage_50: "percentage k 50 = Num (2 * of_nat k)"
  by (simp add: percentage_def)

lemma analyzeDistribution_full:
  assumes "MIN_TICKS_FOR_ANALYSIS \<le> length (tickBuffer s)"
  shows "analyzeDistribution s =
     \<lparr> recentTicks = map (\<lambda>tick. lastDigit (quote tick)) (recentWindow s),
       overCount = highCount s, underCount = 50 - highCount s,
       overPercentage = Num (2 * of_nat (highCount s)),
       underPercentage = Num (2 * of_nat (50 - highCount s)),
       bias = (if 31 \<le> highCount s then UNDER else if highCount s \<le> 19 then OVER else NEUTRAL),
       confidenceScore =
         (if 31 \<le> highCount s then Num (min 95 (2 * of_nat (highCount s) + 5))
          else if highCount s \<le> 19 then Num (min 95 (2 * of_nat (50 - highCount s) + 5))
          else Num 50) \<rparr>"
proof -
  have n: "length (recentWindow s) = 50" by (rule window_full [OF assms])
  have k: "highCount s \<le> 50" using highCount_le [of s] n by simp
  have over: "(2 * rat_of_nat (highCount s) > 60) = (31 \<le> highCount s)"
  proof -
    have "(2 * rat_of_nat (highCount s) > 60) = (rat_of_nat (2 * highCount s) > rat_of_nat 60)"
      by simp
    also have "\<dots> = (2 * highCount s > 60)" by (simp only: of_nat_less_iff)
    also have "\<dots> = (31 \<le> highCount s)" by arith
    finally show ?thesis .
  qed
  have under: "(2 * rat_of_nat (50 - highCount s) > 60) = (highCount s \<le> 19)"
  proof -
    have "(2 * rat_of_nat (50 - highCount s) > 60) = (rat_of_nat (2 * (50 - highCount s)) > rat_of_nat 60)"
      by simp
    also have "\<dots> = (2 * (50 - highCount s) > 60)" by (simp only: of_nat_less_iff)
    also have "\<dots> = (highCount s \<le> 19)" by arith
    finally show ?thesis .
  qed
  show ?thesis
    unfolding analyzeDistribution_window [of s] n
    by (simp add: Let_def percentage_50 over under)
qed

subsection \<open>The detection poll\<close>

lemma math_round_int: "math_round (Num (of_int n)) = Num (of_int n)"
proof -
  have "\<lfloor>(of_int n :: rat) + 1 / 2\<rfloor> = n"
    by (rule floor_unique) simp_all
  then show ?thesis by simp
qed

lemma startCountdown_fields [simp]:
  "currentSignal (startCountdown s) = currentSignal s"
  "activeSignalIds (startCountdown s) = activeSignalIds s"
  "delivered (startCountdown s) = delivered s"
  "onSignalUpdate (startCountdown s) = onSignalUpdate s"
  by (simp_all add: startCountdown_def setInterval_def clearInterval_def Let_def split: option.splits)

lemma generateSignal_fresh:
  assumes "SignalId idNow \<notin> activeSignalIds s"
  shows "currentSignal (generateSignal a idNow now s) =
           Some \<lparr> sid = SignalId idNow, type = bias a, market = MARKET,
                  confidence = math_round (confidenceScore a), createdAt = now,
                  expiresAt = now + 120 * 1000, remainingSeconds = 120,
                  distributionAnalysis = a \<rparr>"
    and "delivered (generateSignal a idNow now s) =
           (if onSignalUpdate s
            then delivered s @ [currentSignal (generateSignal a idNow now s)]
            else delivered s)"
    and "activeSignalIds (generateSignal a idNow now s) = insert (SignalId idNow) (activeSignalIds s)"
  using assms by (simp_all add: generateSignal_def Let_def SIGNAL_DURATION_def)

lemma poll_active: "currentSignal s \<noteq> None \<Longrightarrow> checkAndGenerateSignal idNow now s = s"
  by (simp add: checkAndGenerateSignal_def)

lemma poll_short:
  "length (tickBuffer s) < MIN_TICKS_FOR_ANALYSIS \<Longrightarrow> checkAndGenerateSignal idNow now s = s"
  by (simp add: checkAndGenerateSignal_def)

lemma nonneutral_confidence:
  assumes "MIN_TICKS_FOR_ANALYSIS \<le> length (tickBuffer s)"
      and "bias (analyzeDistribution s) \<noteq> NEUTRAL"
  shows "\<exists>c. confidenceScore (analyzeDistribution s) = Num c \<and> 67 \<le> c \<and> c \<le> 95"
proof -
  let ?k = "highCount s"
  have cases: "31 \<le> ?k \<or> ?k \<le> 19"
    using assms(2) by (simp add: analyzeDistribution_full [OF assms(1)] split: if_splits)
  have hi: "31 \<le> ?k \<Longrightarrow> (67::rat) \<le> 2 * of_nat ?k + 5"
  proof -
    assume "31 \<le> ?k"
    then have "rat_of_nat 31 \<le> of_nat ?k" by (simp only: of_nat_le_iff)
    then show ?thesis by simp
  qed
  have lo: "?k \<le> 19 \<Longrightarrow> (67::rat) \<le> 2 * of_nat (50 - ?k) + 5"
  proof -
    assume "?k \<le> 19"
    then have "31 \<le> 50 - ?k" by arith
    then have "rat_of_nat 31 \<le> of_nat (50 - ?k)" by (simp only: of_nat_le_iff)
    then show ?thesis by simp
  qed
  show ?thesis
    using cases hi lo by (auto simp: analyzeDistribution_full [OF assms(1)])
qed

lemma poll_fires:
  assumes len: "MIN_TICKS_FOR_ANALYSIS \<le> length (tickBuffer s)"
      and nn: "bias (analyzeDistribution s) \<noteq> NEUTRAL"
      and idle: "currentSignal s = None"
      and ids: "ids_tracked s"
  shows "checkAndGenerateSignal idNow now s = generateSignal (analyzeDistribution s) idNow now s"
    and "SignalId idNow \<notin> activeSignalIds s"
proof -
  obtain c where c: "confidenceScore (analyzeDistribution s) = Num c" "67 \<le> c"
    using nonneutral_confidence [OF len nn] by blast
  then have gate: "\<not> js_lt (confidenceScore (analyzeDistribution s)) CONFIDENCE_THRESHOLD"
    by (simp add: CONFIDENCE_THRESHOLD_def)
  show "checkAndGenerateSignal idNow now s = generateSignal (analyzeDistribution s) idNow now s"
    using len nn idle gate by (simp add: checkAndGenerateSignal_def Let_def)
  show "SignalId idNow \<notin> activeSignalIds s"
    using idle ids by (simp add: ids_tracked_def)
qed

lemma run_polls_active:
  "currentSignal s \<noteq> None \<Longrightarrow> run (map (\<lambda>p. DetectionPoll (fst p) (snd p)) polls) s = s"
  by (induction polls) (simp_all add: poll_active)

lemma run_polls_short:
  "length (tickBuffer s) < MIN_TICKS_FOR_ANALYSIS \<Longrightarrow>
   run (map (\<lambda>p. DetectionPoll (fst p) (snd p)) polls) s = s"
  by (induction polls) (simp_all add: poll_short)


subsection \<open>Facts about the concrete inputs\<close>

lemma started_eq:
  "started = \<lparr> config = None, onSignalUpdate = True, currentSignal = None,
     tickBuffer = [], unsubscribe = Some 7, countdownInterval = None,
     signalGenerationInterval = Some 1, isInitialized = True, activeSignalIds = {},
     timers = {1}, nextHandle = 2, unsubscribed = [], delivered = [] \<rparr>"
  by (simp add: started_def startSignalGeneration_def setInterval_def initial_def Let_def)

lemma fold_handleTickData_only_buffer:
  "\<exists>b. fold handleTickData ticks s = s\<lparr>tickBuffer := b\<rparr>"
proof (induction ticks arbitrary: s)
  case Nil
  have "s = s\<lparr>tickBuffer := tickBuffer s\<rparr>" by simp
  then show ?case by (metis fold_simps(1))
next
  case (Cons t ticks)
  obtain b0 where b0: "handleTickData t s = s\<lparr>tickBuffer := b0\<rparr>"
    by (simp add: handleTickData_def Let_def)
  obtain b where "fold handleTickData ticks (s\<lparr>tickBuffer := b0\<rparr>) = s\<lparr>tickBuffer := b0\<rparr>\<lparr>tickBuffer := b\<rparr>"
    using Cons.IH by blast
  then have "fold handleTickData (t # ticks) s = s\<lparr>tickBuffer := b\<rparr>"
    by (simp add: b0)
  then show ?case by blast
qed

lemma fold_handleTickData_frame:
  "fold handleTickData ticks s = s\<lparr>tickBuffer := tickBuffer (fold handleTickData ticks s)\<rparr>"
proof -
  obtain b where b: "fold handleTickData ticks s = s\<lparr>tickBuffer := b\<rparr>"
    using fold_handleTickData_only_buffer by blast
  show ?thesis unfolding b by simp
qed

lemma with_buffer_eq:
  "with_buffer ticks = started\<lparr>tickBuffer := slice_last TICK_BUFFER_SIZE ticks\<rparr>"
proof -
  have "length (tickBuffer started) \<le> TICK_BUFFER_SIZE" by (simp add: started_eq)
  from fold_handleTickData [OF this, of ticks]
  have "tickBuffer (with_buffer ticks) = slice_last TICK_BUFFER_SIZE ticks"
    by (simp add: with_buffer_def started_eq)
  then show ?thesis
    using fold_handleTickData_frame [of ticks started] by (simp add: with_buffer_def)
qed

lemma classifiedOver_hi [simp]: "classifiedOver hi_tick"
  by (simp add: classifiedOver_def hi_tick_def)

lemma classifiedOver_lo [simp]: "\<not> classifiedOver lo_tick"
  by (simp add: classifiedOver_def lo_tick_def)

lemma with_buffer_fields:
  "length ticks \<le> 100 \<Longrightarrow> tickBuffer (with_buffer ticks) = ticks"
  "currentSignal (with_buffer ticks) = None"
  "ids_tracked (with_buffer ticks)"
  "onSignalUpdate (with_buffer ticks)"
  "delivered (with_buffer ticks) = []"
  by (simp_all add: with_buffer_eq started_eq slice_last_short TICK_BUFFER_SIZE_def ids_tracked_def)

lemma highCount_31_19:
  "highCount (with_buffer (replicate 31 hi_tick @ replicate 19 lo_tick)) = 31"
  by (simp add: highCount_def recentWindow_def with_buffer_fields slice_last_def
      MIN_TICKS_FOR_ANALYSIS_def)

lemma idle_example_buffer: "tickBuffer idle_example = scenario_buffer"
  by (simp add: idle_example_def scenario_buffer_def with_buffer_fields)

lemma idle_example_facts:
  "length (tickBuffer idle_example) = 50"
  "highCount idle_example = 31"
  "currentSignal idle_example = None"
  "ids_tracked idle_example"
  "onSignalUpdate idle_example"
  "delivered idle_example = []"
  using highCount_31_19
  by (simp_all add: idle_example_def scenario_buffer_def with_buffer_fields)

lemma idle_example_handles:
  "countdownInterval idle_example = None"
  "signalGenerationInterval idle_example = Some 1"
  "unsubscribe idle_example = Some 7"
  "activeSignalIds idle_example = {}"
  "timers idle_example = {1}"
  "nextHandle idle_example = 2"
  "unsubscribed idle_example = []"
  by (simp_all add: idle_example_def with_buffer_eq started_eq)

lemma idle_example_analysis:
  "bias (analyzeDistribution idle_example) = UNDER"
  "confidenceScore (analyzeDistribution idle_example) = Num 67"
  "overPercentage (analyzeDistribution idle_example) = Num 62"
proof -
  have len: "MIN_TICKS_FOR_ANALYSIS \<le> length (tickBuffer idle_example)"
    by (simp add: idle_example_facts MIN_TICKS_FOR_ANALYSIS_def)
  show "bias (analyzeDistribution idle_example) = UNDER"
    "confidenceScore (analyzeDistribution idle_example) = Num 67"
    "overPercentage (analyzeDistribution idle_example) = Num 62"
    by (simp_all add: analyzeDistribution_full [OF len] idle_example_facts)
qed

lemma active_example_eq:
  "active_example = idle_example
     \<lparr> currentSignal := Some \<lparr> sid = SignalId 1000, type = UNDER, market = MARKET,
          confidence = Num 67, createdAt = 1000, expiresAt = 121000, remainingSeconds = 120,
          distributionAnalysis = analyzeDistribution idle_example \<rparr>,
       countdownInterval := Some 2,
       activeSignalIds := {SignalId 1000},
       timers := {1, 2},
       nextHandle := 3,
       delivered := [Some \<lparr> sid = SignalId 1000, type = UNDER, market = MARKET,
          confidence = Num 67, createdAt = 1000, expiresAt = 121000, remainingSeconds = 120,
          distributionAnalysis = analyzeDistribution idle_example \<rparr>] \<rparr>"
proof -
  have len: "MIN_TICKS_FOR_ANALYSIS \<le> length (tickBuffer idle_example)"
    by (simp add: idle_example_facts MIN_TICKS_FOR_ANALYSIS_def)
  have nn: "bias (analyzeDistribution idle_example) \<noteq> NEUTRAL"
    by (simp add: idle_example_analysis)
  have r: "math_round (Num 67) = Num 67"
    using math_round_int [of 67] by simp
  have "active_example = generateSignal (analyzeDistribution idle_example) 1000 1000 idle_example"
    unfolding active_example_def
    by (rule poll_fires(1) [OF len nn idle_example_facts(3) idle_example_facts(4)])
  also have "\<dots> = idle_example
     \<lparr> currentSignal := Some \<lparr> sid = SignalId 1000, type = UNDER, market = MARKET,
          confidence = Num 67, createdAt = 1000, expiresAt = 121000, remainingSeconds = 120,
          distributionAnalysis = analyzeDistribution idle_example \<rparr>,
       countdownInterval := Some 2,
       activeSignalIds := {SignalId 1000},
       timers := {1, 2},
       nextHandle := 3,
       delivered := [Some \<lparr> sid = SignalId 1000, type = UNDER, market = MARKET,
          confidence = Num 67, createdAt = 1000, expiresAt = 121000, remainingSeconds = 120,
          distributionAnalysis = analyzeDistribution idle_example \<rparr>] \<rparr>"
    by (simp add: generateSignal_def Let_def idle_example_analysis r SIGNAL_DURATION_def
        startCountdown_def setInterval_def notify_def idle_example_facts idle_example_handles
        insert_commute del: math_round.simps)
  finally show ?thesis .
qed

subsection \<open>Signals created by the poll\<close>

lemma poll_creates:
  assumes len: "MIN_TICKS_FOR_ANALYSIS \<le> length (tickBuffer s)"
      and nn: "bias (analyzeDistribution s) \<noteq> NEUTRAL"
      and idle: "currentSignal s = None"
      and ids: "ids_tracked s"
  shows "currentSignal (checkAndGenerateSignal idNow now s) =
           Some \<lparr> sid = SignalId idNow, type = bias (analyzeDistribution s), market = MARKET,
                  confidence = math_round (confidenceScore (analyzeDistribution s)),
                  createdAt = now, expiresAt = now + 120 * 1000, remainingSeconds = 120,
                  distributionAnalysis = analyzeDistribution s \<rparr>"
    and "delivered (checkAndGenerateSignal idNow now s) =
           (if onSignalUpdate s
            then delivered s @ [currentSignal (checkAndGenerateSignal idNow now s)]
            else delivered s)"
  using poll_fires(1) [OF assms, of idNow now] poll_fires(2) [OF assms, of idNow]
  by (simp_all add: generateSignal_fresh del: math_round.simps)

lemma math_round_67: "math_round (Num 67) = Num 67"
  using math_round_int [of 67] by simp

lemma window_of_full_window:
  assumes "MIN_TICKS_FOR_ANALYSIS \<le> length (tickBuffer s)"
  shows "recentWindow (s\<lparr>tickBuffer := older @ recentWindow s\<rparr>) = recentWindow s"
  using window_full [OF assms]
  by (simp add: recentWindow_def slice_last_def MIN_TICKS_FOR_ANALYSIS_def)

lemma analysis_depends_on_window:
  "recentWindow s1 = recentWindow s2 \<Longrightarrow> analyzeDistribution s1 = analyzeDistribution s2"
  by (simp add: analyzeDistribution_window highCount_def)

text \<open>In a full window both percentages are even whole numbers, so a high share of
  exactly 61 percent does not occur.\<close>

lemma full_window_percentage_even:
  assumes "MIN_TICKS_FOR_ANALYSIS \<le> length (tickBuffer s)"
  shows "overPercentage (analyzeDistribution s) = Num (of_nat (2 * highCount s))"
    and "overPercentage (analyzeDistribution s) \<noteq> Num 61"
proof -
  show e: "overPercentage (analyzeDistribution s) = Num (of_nat (2 * highCount s))"
    by (simp add: analyzeDistribution_full [OF assms])
  have "rat_of_nat (2 * highCount s) \<noteq> rat_of_nat 61"
  proof
    assume "rat_of_nat (2 * highCount s) = rat_of_nat 61"
    then have "2 * highCount s = 61" by (simp only: of_nat_eq_iff)
    then show False by arith
  qed
  then show "overPercentage (analyzeDistribution s) \<noteq> Num 61"
    unfolding e by simp
qed

subsection \<open>The countdown\<close>

lemma clearCurrentSignal_fields:
  "currentSignal (clearCurrentSignal s) = None"
  "delivered (clearCurrentSignal s) =
     (if currentSignal s \<noteq> None \<and> onSignalUpdate s then delivered s @ [None] else delivered s)"
  "onSignalUpdate (clearCurrentSignal s) = onSignalUpdate s"
  by (auto simp: clearCurrentSignal_def clearInterval_def Let_def split: option.splits)

lemma countdownCallback_active:
  assumes "currentSignal s = Some g"
  shows "countdownCallback now s =
     (let r = remainingAt (expiresAt g) now;
          s2 = notify (Some (g\<lparr>remainingSeconds := r\<rparr>))
                 (s\<lparr>currentSignal := Some (g\<lparr>remainingSeconds := r\<rparr>)\<rparr>)
      in if r \<le> 0 then clearCurrentSignal s2 else s2)"
  using assms by (simp add: countdownCallback_def remainingAt_def Let_def)

lemma remainingAt_nonneg: "0 \<le> remainingAt expires now"
  by (simp add: remainingAt_def)

lemma remainingAt_antimono: "now \<le> now' \<Longrightarrow> remainingAt expires now' \<le> remainingAt expires now"
proof -
  assume "now \<le> now'"
  then have "(expires - now') div 1000 \<le> (expires - now) div 1000"
    by (intro zdiv_mono1) simp_all
  then show ?thesis by (simp add: remainingAt_def)
qed

lemma remainingAt_zero_iff: "(remainingAt expires now = 0) = (expires - now < 1000)"
proof -
  have "(0 < (expires - now) div 1000) = (1000 \<le> expires - now)"
    by (rule pos_imp_zdiv_pos_iff) simp
  then have "((expires - now) div 1000 \<le> 0) = (expires - now < 1000)"
    by linarith
  then show ?thesis unfolding remainingAt_def max_def by (auto; linarith)
qed

subsection \<open>Invariants of a run\<close>

text \<open>Every event keeps both invariants; the initial state and the started engine
  satisfy them.\<close>

lemma tickCallback_frame:
  "tickCallback m s = s\<lparr>tickBuffer := tickBuffer (tickCallback m s)\<rparr>"
  by (simp add: tickCallback_def handleTickData_def Let_def split: option.splits)

lemma ids_tracked_tickCallback: "ids_tracked s \<Longrightarrow> ids_tracked (tickCallback m s)"
  by (subst tickCallback_frame) (simp add: ids_tracked_def)

lemma timers_tracked_tickCallback: "timers_tracked s \<Longrightarrow> timers_tracked (tickCallback m s)"
  by (subst tickCallback_frame) (simp add: timers_tracked_def)

lemma ids_tracked_clearCurrentSignal: "ids_tracked s \<Longrightarrow> ids_tracked (clearCurrentSignal s)"
  by (auto simp: ids_tracked_def clearCurrentSignal_def clearInterval_def notify_def Let_def
      split: option.splits)

lemma timers_tracked_clearCurrentSignal:
  "timers_tracked s \<Longrightarrow> timers_tracked (clearCurrentSignal s)"
  by (auto simp: timers_tracked_def clearCurrentSignal_def clearInterval_def notify_def Let_def
      split: option.splits)

lemma ids_tracked_countdownCallback: "ids_tracked s \<Longrightarrow> ids_tracked (countdownCallback now s)"
proof (cases "currentSignal s")
  case None
  then show "ids_tracked s \<Longrightarrow> ?thesis"
    by (simp add: countdownCallback_def clearInterval_def ids_tracked_def split: option.splits)
next
  case (Some g)
  assume t: "ids_tracked s"
  let ?r = "remainingAt (expiresAt g) now"
  let ?s2 = "notify (Some (g\<lparr>remainingSeconds := ?r\<rparr>))
                 (s\<lparr>currentSignal := Some (g\<lparr>remainingSeconds := ?r\<rparr>)\<rparr>)"
  have "ids_tracked ?s2"
    using t Some by (simp add: ids_tracked_def notify_def)
  then show ?thesis
    by (simp add: countdownCallback_active [OF Some] Let_def ids_tracked_clearCurrentSignal)
qed

lemma timers_tracked_countdownCallback:
  "timers_tracked s \<Longrightarrow> timers_tracked (countdownCallback now s)"
proof (cases "currentSignal s")
  case None
  then show "timers_tracked s \<Longrightarrow> ?thesis"
    by (auto simp: countdownCallback_def clearInterval_def timers_tracked_def split: option.splits)
next
  case (Some g)
  assume t: "timers_tracked s"
  let ?r = "remainingAt (expiresAt g) now"
  let ?s2 = "notify (Some (g\<lparr>remainingSeconds := ?r\<rparr>))
                 (s\<lparr>currentSignal := Some (g\<lparr>remainingSeconds := ?r\<rparr>)\<rparr>)"
  have "timers_tracked ?s2"
    using t by (simp add: timers_tracked_def notify_def)
  then show ?thesis
    by (simp add: countdownCallback_active [OF Some] Let_def timers_tracked_clearCurrentSignal)
qed

lemma timers_tracked_startCountdown: "timers_tracked s \<Longrightarrow> timers_tracked (startCountdown s)"
  by (auto simp: timers_tracked_def startCountdown_def setInterval_def clearInterval_def Let_def
      split: option.splits)

lemma ids_tracked_poll: "ids_tracked s \<Longrightarrow> ids_tracked (checkAndGenerateSignal idNow now s)"
  by (auto simp: checkAndGenerateSignal_def generateSignal_def Let_def ids_tracked_def
      split: option.splits)

lemma timers_tracked_poll:
  "timers_tracked s \<Longrightarrow> timers_tracked (checkAndGenerateSignal idNow now s)"
proof -
  assume t: "timers_tracked s"
  have "timers_tracked (generateSignal a idNow now s)" for a
  proof (cases "SignalId idNow \<in> activeSignalIds s")
    case True
    then show ?thesis using t by (simp add: generateSignal_def)
  next
    case False
    have "timers_tracked (notify x (s\<lparr>currentSignal := c, activeSignalIds := i\<rparr>))" for x c i
      using t by (simp add: timers_tracked_def notify_def)
    then show ?thesis
      using False by (simp add: generateSignal_def Let_def timers_tracked_startCountdown)
  qed
  then show ?thesis
    using t by (simp add: checkAndGenerateSignal_def Let_def)
qed

lemma ids_tracked_reload: "ids_tracked s \<Longrightarrow> ids_tracked (reload cfg s)"
proof -
  assume "ids_tracked s"
  then have "ids_tracked (s\<lparr>config := Some cfg\<rparr>)" by (simp add: ids_tracked_def)
  then show ?thesis unfolding reload_def by (rule ids_tracked_clearCurrentSignal)
qed

lemma timers_tracked_reload: "timers_tracked s \<Longrightarrow> timers_tracked (reload cfg s)"
proof -
  assume "timers_tracked s"
  then have "timers_tracked (s\<lparr>config := Some cfg\<rparr>)" by (simp add: timers_tracked_def)
  then show ?thesis unfolding reload_def by (rule timers_tracked_clearCurrentSignal)
qed

lemma destroy_fields:
  "unsubscribe (destroy s) = None"
  "unsubscribed (destroy s) = unsubscribed s @ (case unsubscribe s of None \<Rightarrow> [] | Some sub \<Rightarrow> [sub])"
  "countdownInterval (destroy s) = None"
  "signalGenerationInterval (destroy s) = None"
  "timers (destroy s) =
     timers s - (set_option (countdownInterval s) \<union> set_option (signalGenerationInterval s))"
  "currentSignal (destroy s) = None"
  "activeSignalIds (destroy s) = {}"
  "isInitialized (destroy s) = False"
  "delivered (destroy s) = delivered s"
  "onSignalUpdate (destroy s) = onSignalUpdate s"
  by (auto simp: destroy_def clearInterval_def Let_def split: option.splits)

lemma tracked_destroy:
  "ids_tracked (destroy s)"
  "timers_tracked s \<Longrightarrow> timers_tracked (destroy s)"
  "timers_tracked s \<Longrightarrow> timers (destroy s) = {}"
  by (auto simp: ids_tracked_def timers_tracked_def destroy_fields)

lemma tracked_step:
  "ids_tracked s \<Longrightarrow> ids_tracked (step e s)"
  "timers_tracked s \<Longrightarrow> timers_tracked (step e s)"
  by (cases e; simp add: ids_tracked_tickCallback timers_tracked_tickCallback ids_tracked_poll
      timers_tracked_poll ids_tracked_countdownCallback timers_tracked_countdownCallback
      ids_tracked_reload timers_tracked_reload tracked_destroy)+

lemma tracked_run:
  "ids_tracked s \<Longrightarrow> ids_tracked (run evs s)"
  "timers_tracked s \<Longrightarrow> timers_tracked (run evs s)"
  by (induction evs arbitrary: s) (simp_all add: tracked_step)

lemma tracked_started: "ids_tracked started" "timers_tracked started"
  by (simp_all add: ids_tracked_def timers_tracked_def started_eq)

lemma tracked_initial: "ids_tracked initial" "timers_tracked initial"
  by (simp_all add: ids_tracked_def timers_tracked_def initial_def)

subsection \<open>The active examples\<close>

lemma active_example_signal:
  "currentSignal active_example = Some \<lparr> sid = SignalId 1000, type = UNDER, market = MARKET,
          confidence = Num 67, createdAt = 1000, expiresAt = 121000, remainingSeconds = 120,
          distributionAnalysis = analyzeDistribution idle_example \<rparr>"
  "onSignalUpdate active_example"
  "countdownInterval active_example = Some 2"
  "signalGenerationInterval active_example = Some 1"
  "timers active_example = {1, 2}"
  "unsubscribe active_example = Some 7"
  "unsubscribed active_example = []"
  "delivered active_example = [currentSignal active_example]"
  by (simp_all add: active_example_eq idle_example_facts idle_example_handles)

lemma mid_countdown_example_facts:
  "map_option remainingSeconds (currentSignal mid_countdown_example) = Some 45"
  "onSignalUpdate mid_countdown_example"
  "map (map_option remainingSeconds) (delivered mid_countdown_example) = [Some 120, Some 45]"
  "timers mid_countdown_example = {1, 2}"
  "timers_tracked mid_countdown_example"
  "None \<notin> set (delivered mid_countdown_example)"
  "tickBuffer mid_countdown_example = scenario_buffer"
proof -
  have r: "remainingAt 121000 76000 = 45" by (simp add: remainingAt_def)
  have e: "mid_countdown_example =
      notify (Some (\<lparr> sid = SignalId 1000, type = UNDER, market = MARKET,
          confidence = Num 67, createdAt = 1000, expiresAt = 121000, remainingSeconds = 45,
          distributionAnalysis = analyzeDistribution idle_example \<rparr>))
       (active_example\<lparr>currentSignal := Some (\<lparr> sid = SignalId 1000, type = UNDER, market = MARKET,
          confidence = Num 67, createdAt = 1000, expiresAt = 121000, remainingSeconds = 45,
          distributionAnalysis = analyzeDistribution idle_example \<rparr>)\<rparr>)"
    unfolding mid_countdown_example_def
    by (simp add: countdownCallback_active [OF active_example_signal(1)] r Let_def)
  show "map_option remainingSeconds (currentSignal mid_countdown_example) = Some 45"
    "onSignalUpdate mid_countdown_example"
    "map (map_option remainingSeconds) (delivered mid_countdown_example) = [Some 120, Some 45]"
    "timers mid_countdown_example = {1, 2}"
    "timers_tracked mid_countdown_example"
    "None \<notin> set (delivered mid_countdown_example)"
    by (simp_all add: e active_example_signal timers_tracked_def)
  show "tickBuffer mid_countdown_example = scenario_buffer"
    by (simp add: mid_countdown_example_def active_example_def idle_example_buffer)
qed

section \<open>The claims\<close>

subsection \<open>C4: the buffer is bounded and first-in first-out\<close>

text \<open>
  Claim C4. From any state whose buffer holds at most 100 samples (the initial, empty
  buffer among them), the buffer never holds more than 100 samples, whatever events
  the engine runs; after any sequence of ingested samples the buffer is exactly the last
  100 of the old contents followed by the new samples, in arrival order; an ingest into
  a full buffer drops the oldest sample and nothing else, and an ingest into a buffer
  with room only appends.
\<close>

theorem buffer_capacity_fifo:
  assumes "length (tickBuffer s) \<le> TICK_BUFFER_SIZE"
  shows "TICK_BUFFER_SIZE = 100
       \<and> length (tickBuffer (run evs s)) \<le> TICK_BUFFER_SIZE
       \<and> tickBuffer (fold handleTickData ticks s)
           = slice_last TICK_BUFFER_SIZE (tickBuffer s @ ticks)
       \<and> (length (tickBuffer s) = TICK_BUFFER_SIZE \<longrightarrow>
            tickBuffer (handleTickData t s) = tl (tickBuffer s) @ [t])
       \<and> (length (tickBuffer s) < TICK_BUFFER_SIZE \<longrightarrow>
            tickBuffer (handleTickData t s) = tickBuffer s @ [t])"
proof -
  have full: "length (tickBuffer s) = TICK_BUFFER_SIZE \<Longrightarrow>
      tickBuffer (handleTickData t s) = tl (tickBuffer s) @ [t]"
    by (cases "tickBuffer s") (simp_all add: handleTickData_buffer TICK_BUFFER_SIZE_def)
  have room: "length (tickBuffer s) < TICK_BUFFER_SIZE \<Longrightarrow>
      tickBuffer (handleTickData t s) = tickBuffer s @ [t]"
    by (simp add: handleTickData_buffer)
  show ?thesis
    using run_bounded [OF assms] fold_handleTickData [OF assms] full room
    by (simp add: TICK_BUFFER_SIZE_def)
qed

theorem buffer_capacity_fifo_witness:
  "length (tickBuffer (with_buffer (replicate 100 lo_tick))) \<le> TICK_BUFFER_SIZE
   \<and> tickBuffer (handleTickData hi_tick (with_buffer (replicate 100 lo_tick)))
       = replicate 99 lo_tick @ [hi_tick]"
proof -
  let ?s = "with_buffer (replicate 100 lo_tick)"
  have b: "tickBuffer ?s = replicate 100 lo_tick"
    by (simp add: with_buffer_fields)
  have h: "length (tickBuffer ?s) \<le> TICK_BUFFER_SIZE"
    by (simp add: b TICK_BUFFER_SIZE_def)
  have full: "length (tickBuffer ?s) = TICK_BUFFER_SIZE"
    by (simp add: b TICK_BUFFER_SIZE_def)
  from buffer_capacity_fifo [OF h, of "[]" "[]" hi_tick] full
  have "tickBuffer (handleTickData hi_tick ?s) = tl (tickBuffer ?s) @ [hi_tick]"
    by blast
  then have "tickBuffer (handleTickData hi_tick ?s) = replicate 99 lo_tick @ [hi_tick]"
    by (simp add: b)
  with h show ?thesis by blast
qed

subsection \<open>C1: the detection poll does nothing while a signal is active\<close>

text \<open>
  Claim C1. The active signal lives in the single slot \<open>currentSignal\<close>, so at most one
  signal is active. While the slot is occupied, \<open>checkAndGenerateSignal\<close> returns the
  state it was given: no signal is created, nothing is delivered to the callback and no
  field changes; the same holds for any sequence of detection polls.
\<close>

theorem poll_is_noop_while_active:
  assumes "currentSignal s \<noteq> None"
  shows "checkAndGenerateSignal idNow now s = s
       \<and> run (map (\<lambda>p. DetectionPoll (fst p) (snd p)) polls) s = s"
  using assms by (simp add: poll_active run_polls_active)

theorem poll_is_noop_while_active_witness:
  "currentSignal active_example \<noteq> None
   \<and> checkAndGenerateSignal 5000 5000 active_example = active_example
   \<and> run [DetectionPoll 5000 5000, DetectionPoll 5000 5000] active_example = active_example"
proof -
  have h: "currentSignal active_example \<noteq> None"
    by (simp add: active_example_eq)
  show ?thesis
    using h poll_is_noop_while_active [OF h, of 5000 5000 "[(5000, 5000), (5000, 5000)]"]
    by simp
qed

subsection \<open>C3: fewer than 50 samples\<close>

text \<open>
  Claim C3, as stated: for every buffer holding fewer than 50 samples the analysis
  produces a snapshot with bias NEUTRAL and confidence 0. The analysis has no minimum of
  its own: on a buffer holding the single sample 0.75 it reports bias UNDER with
  confidence 95.
\<close>

theorem analyzer_has_no_minimum_counterexample:
  "length (tickBuffer (with_buffer [hi_tick])) < 50
   \<and> bias (analyzeDistribution (with_buffer [hi_tick])) = UNDER
   \<and> confidenceScore (analyzeDistribution (with_buffer [hi_tick])) = Num 95"
  by (simp add: analyzeDistribution_window recentWindow_def highCount_def with_buffer_fields
      slice_last_def percentage_def Let_def MIN_TICKS_FOR_ANALYSIS_def)

text \<open>
  Claim C3, amended. With fewer than 50 samples in the buffer the detection poll returns
  before the analysis is run: no snapshot is produced, no signal is created, nothing is
  delivered to the callback and the state is unchanged, for one poll and for any sequence
  of polls. The condition is not an error.
\<close>

theorem poll_skips_short_buffer:
  assumes "length (tickBuffer s) < MIN_TICKS_FOR_ANALYSIS"
  shows "MIN_TICKS_FOR_ANALYSIS = 50
       \<and> checkAndGenerateSignal idNow now s = s
       \<and> run (map (\<lambda>p. DetectionPoll (fst p) (snd p)) polls) s = s"
  using assms by (simp add: poll_short run_polls_short MIN_TICKS_FOR_ANALYSIS_def)

theorem poll_skips_short_buffer_witness:
  "length (tickBuffer (with_buffer (replicate 49 hi_tick))) < MIN_TICKS_FOR_ANALYSIS
   \<and> checkAndGenerateSignal 1000 1000 (with_buffer (replicate 49 hi_tick))
       = with_buffer (replicate 49 hi_tick)"
proof -
  have h: "length (tickBuffer (with_buffer (replicate 49 hi_tick))) < MIN_TICKS_FOR_ANALYSIS"
    by (simp add: with_buffer_fields MIN_TICKS_FOR_ANALYSIS_def)
  show ?thesis
    using h poll_skips_short_buffer [OF h, of 1000 1000 "[]"] by simp
qed

subsection \<open>C10: a non-neutral snapshot always passes the confidence gate\<close>

text \<open>
  Claim C10. When the buffer holds at least 50 samples the analysed window has exactly
  50. If the snapshot's bias is not NEUTRAL, its confidence score is at least 67, hence
  not below the threshold 65; and if moreover no signal is active (in a state where the
  identifier set holds exactly the identifiers of active signals), the detection poll
  creates a signal carrying that snapshot.
\<close>

theorem nonneutral_snapshot_passes_gate:
  assumes "MIN_TICKS_FOR_ANALYSIS \<le> length (tickBuffer s)"
      and "bias (analyzeDistribution s) \<noteq> NEUTRAL"
  shows "length (recentWindow s) = 50
       \<and> js_ge (confidenceScore (analyzeDistribution s)) 67
       \<and> CONFIDENCE_THRESHOLD = 65
       \<and> \<not> js_lt (confidenceScore (analyzeDistribution s)) CONFIDENCE_THRESHOLD
       \<and> (currentSignal s = None \<and> ids_tracked s \<longrightarrow>
            (\<exists>g. currentSignal (checkAndGenerateSignal idNow now s) = Some g
                \<and> distributionAnalysis g = analyzeDistribution s
                \<and> type g = bias (analyzeDistribution s)))"
proof -
  obtain c where c: "confidenceScore (analyzeDistribution s) = Num c" "67 \<le> c"
    using nonneutral_confidence [OF assms] by blast
  have fires: "currentSignal s = None \<Longrightarrow> ids_tracked s \<Longrightarrow>
      \<exists>g. currentSignal (checkAndGenerateSignal idNow now s) = Some g
        \<and> distributionAnalysis g = analyzeDistribution s
        \<and> type g = bias (analyzeDistribution s)"
    using poll_fires [OF assms] by (simp add: generateSignal_fresh(1))
  show ?thesis
    using c fires window_full [OF assms(1)] by (simp add: CONFIDENCE_THRESHOLD_def)
qed

theorem nonneutral_snapshot_passes_gate_witness:
  "MIN_TICKS_FOR_ANALYSIS \<le> length (tickBuffer idle_example)
   \<and> bias (analyzeDistribution idle_example) \<noteq> NEUTRAL
   \<and> currentSignal idle_example = None \<and> ids_tracked idle_example
   \<and> js_ge (confidenceScore (analyzeDistribution idle_example)) 67
   \<and> (\<exists>g. currentSignal (checkAndGenerateSignal 1000 1000 idle_example) = Some g
          \<and> type g = bias (analyzeDistribution idle_example))"
proof -
  have len: "MIN_TICKS_FOR_ANALYSIS \<le> length (tickBuffer idle_example)"
    by (simp add: idle_example_facts MIN_TICKS_FOR_ANALYSIS_def)
  have nn: "bias (analyzeDistribution idle_example) \<noteq> NEUTRAL"
    by (simp add: idle_example_analysis)
  show ?thesis
    using len nn idle_example_facts(3,4)
      nonneutral_snapshot_passes_gate [OF len nn, of 1000 1000]
    by blast
qed

subsection \<open>C5: 31 high samples out of 50\<close>

text \<open>
  Claim C5. For a buffer of exactly 50 samples of which 31 classify high and 19 low (the
  high share is 62 percent), the snapshot has confidence 67; when no signal is active,
  the detection poll creates a signal of type UNDER (the low side, against the dominant
  high side) with confidence 67, created at the clock reading of the poll and expiring
  120 seconds (120000 ms) later, and delivers it to the callback.
\<close>

theorem scenario_31_of_50:
  assumes "length (tickBuffer s) = 50"
      and "highCount s = 31"
      and "currentSignal s = None"
      and "ids_tracked s"
  shows "overCount (analyzeDistribution s) = 31
       \<and> underCount (analyzeDistribution s) = 19
       \<and> overPercentage (analyzeDistribution s) = Num 62
       \<and> confidenceScore (analyzeDistribution s) = Num 67
       \<and> (\<exists>g. currentSignal (checkAndGenerateSignal idNow now s) = Some g
              \<and> type g = UNDER
              \<and> confidence g = Num 67
              \<and> createdAt g = now
              \<and> expiresAt g = createdAt g + 120 * 1000
              \<and> (onSignalUpdate s \<longrightarrow>
                    delivered (checkAndGenerateSignal idNow now s) = delivered s @ [Some g]))"
proof -
  have len: "MIN_TICKS_FOR_ANALYSIS \<le> length (tickBuffer s)"
    using assms(1) by (simp add: MIN_TICKS_FOR_ANALYSIS_def)
  have a: "overCount (analyzeDistribution s) = 31"
    "underCount (analyzeDistribution s) = 19"
    "overPercentage (analyzeDistribution s) = Num 62"
    "confidenceScore (analyzeDistribution s) = Num 67"
    "bias (analyzeDistribution s) = UNDER"
    by (simp_all add: analyzeDistribution_full [OF len] assms(2))
  have nn: "bias (analyzeDistribution s) \<noteq> NEUTRAL" by (simp add: a)
  show ?thesis
    using poll_creates [OF len nn assms(3) assms(4), of idNow now]
    by (simp add: a math_round_67 del: math_round.simps)
qed

theorem scenario_31_of_50_witness:
  "length (tickBuffer idle_example) = 50 \<and> highCount idle_example = 31
   \<and> currentSignal idle_example = None \<and> ids_tracked idle_example
   \<and> confidenceScore (analyzeDistribution idle_example) = Num 67
   \<and> (\<exists>g. currentSignal (checkAndGenerateSignal 1000 1000 idle_example) = Some g
          \<and> type g = UNDER \<and> confidence g = Num 67 \<and> expiresAt g = 121000)"
proof -
  note h = idle_example_facts(1) idle_example_facts(2) idle_example_facts(3) idle_example_facts(4)
  from scenario_31_of_50 [OF h, of 1000 1000]
  obtain g where "confidenceScore (analyzeDistribution idle_example) = Num 67"
    "currentSignal (checkAndGenerateSignal 1000 1000 idle_example) = Some g"
    "type g = UNDER" "confidence g = Num 67" "createdAt g = 1000"
    "expiresAt g = createdAt g + 120 * 1000"
    by blast
  then show ?thesis using h by simp
qed

subsection \<open>C7: which samples the analysis classifies\<close>

text \<open>
  Claim C7, as stated: with at least 50 samples buffered, the high count plus the low
  count equals the length of the buffer. On a buffer of 51 samples the two counts sum to
  50.
\<close>

theorem older_samples_ignored_counterexample:
  "length (tickBuffer (with_buffer (replicate 51 hi_tick))) = 51
   \<and> overCount (analyzeDistribution (with_buffer (replicate 51 hi_tick)))
       + underCount (analyzeDistribution (with_buffer (replicate 51 hi_tick))) = 50
   \<and> overCount (analyzeDistribution (with_buffer (replicate 51 hi_tick)))
       + underCount (analyzeDistribution (with_buffer (replicate 51 hi_tick)))
       \<noteq> length (tickBuffer (with_buffer (replicate 51 hi_tick)))"
proof -
  have b: "tickBuffer (with_buffer (replicate 51 hi_tick)) = replicate 51 hi_tick"
    by (simp add: with_buffer_fields)
  have len: "MIN_TICKS_FOR_ANALYSIS \<le> length (tickBuffer (with_buffer (replicate 51 hi_tick)))"
    by (simp add: b MIN_TICKS_FOR_ANALYSIS_def)
  have k: "highCount (with_buffer (replicate 51 hi_tick)) \<le> 50"
    using highCount_le [of "with_buffer (replicate 51 hi_tick)"] window_full [OF len] by simp
  show ?thesis
    using k by (simp add: analyzeDistribution_full [OF len] b)
qed

text \<open>
  Claim C7, amended. With at least 50 samples buffered, the analysis classifies each of
  the 50 most recent samples as high or low: the two counts are the numbers of high and
  of low samples among those 50 and sum to 50, the percentages are the counts over 50,
  and samples older than the last 50 do not contribute (replacing them by any others
  leaves the snapshot unchanged).
\<close>

theorem analysis_covers_last_50:
  assumes "MIN_TICKS_FOR_ANALYSIS \<le> length (tickBuffer s)"
  shows "recentWindow s = drop (length (tickBuffer s) - 50) (tickBuffer s)
       \<and> length (recentWindow s) = 50
       \<and> recentTicks (analyzeDistribution s) = map (\<lambda>tick. lastDigit (quote tick)) (recentWindow s)
       \<and> overCount (analyzeDistribution s) = length (filter classifiedOver (recentWindow s))
       \<and> underCount (analyzeDistribution s)
           = length (filter (\<lambda>tick. \<not> classifiedOver tick) (recentWindow s))
       \<and> overCount (analyzeDistribution s) + underCount (analyzeDistribution s) = 50
       \<and> overPercentage (analyzeDistribution s)
           = Num (of_nat (overCount (analyzeDistribution s)) / 50 * 100)
       \<and> underPercentage (analyzeDistribution s)
           = Num (of_nat (underCount (analyzeDistribution s)) / 50 * 100)
       \<and> analyzeDistribution (s\<lparr>tickBuffer := older @ recentWindow s\<rparr>) = analyzeDistribution s"
proof -
  have n: "length (recentWindow s) = 50" by (rule window_full [OF assms])
  have k: "highCount s \<le> 50" using highCount_le [of s] n by simp
  have "length (filter classifiedOver (recentWindow s))
      + length (filter (\<lambda>tick. \<not> classifiedOver tick) (recentWindow s)) = length (recentWindow s)"
    by (rule sum_length_filter_compl)
  then have u: "length (filter (\<lambda>tick. \<not> classifiedOver tick) (recentWindow s)) = 50 - highCount s"
    by (simp add: highCount_def n)
  have same: "analyzeDistribution (s\<lparr>tickBuffer := older @ recentWindow s\<rparr>) = analyzeDistribution s"
    by (rule analysis_depends_on_window) (rule window_of_full_window [OF assms])
  have w: "recentWindow s = drop (length (tickBuffer s) - 50) (tickBuffer s)"
    by (simp add: recentWindow_def slice_last_def MIN_TICKS_FOR_ANALYSIS_def)
  have f: "recentTicks (analyzeDistribution s) = map (\<lambda>tick. lastDigit (quote tick)) (recentWindow s)"
    "overCount (analyzeDistribution s) = highCount s"
    "underCount (analyzeDistribution s) = 50 - highCount s"
    "overPercentage (analyzeDistribution s) = Num (of_nat (highCount s) / 50 * 100)"
    "underPercentage (analyzeDistribution s) = Num (of_nat (50 - highCount s) / 50 * 100)"
    by (simp_all add: analyzeDistribution_full [OF assms])
  show ?thesis
    unfolding f using w n u same k by (simp add: highCount_def)
qed

theorem analysis_covers_last_50_witness:
  "MIN_TICKS_FOR_ANALYSIS \<le> length (tickBuffer idle_example)
   \<and> overCount (analyzeDistribution idle_example)
       + underCount (analyzeDistribution idle_example) = 50"
proof -
  have len: "MIN_TICKS_FOR_ANALYSIS \<le> length (tickBuffer idle_example)"
    by (simp add: idle_example_facts MIN_TICKS_FOR_ANALYSIS_def)
  show ?thesis
    using len analysis_covers_last_50 [OF len, of "[]"] by blast
qed

subsection \<open>C8: the remaining time of an active signal\<close>

text \<open>
  Claim C8, as stated: the remaining time reaches 0 at or after the expiry time, and
  the signal is cleared then. For the signal expiring at 121000, the countdown callback
  run at 120500, half a second before the expiry, computes 0 remaining seconds, delivers
  the signal with 0 and then the clearing, and leaves no signal active.
\<close>

theorem cleared_before_expiry_counterexample:
  "map_option expiresAt (currentSignal active_example) = Some 121000
   \<and> (120500::int) < 121000
   \<and> currentSignal (countdownCallback 120500 active_example) = None
   \<and> map (map_option remainingSeconds) (delivered (countdownCallback 120500 active_example))
       = [Some 120, Some 0, None]"
proof -
  have r: "remainingAt 121000 120500 = 0" by (simp add: remainingAt_def)
  show ?thesis
    by (simp add: countdownCallback_active [OF active_example_signal(1)] r Let_def
        clearCurrentSignal_fields active_example_signal)
qed

text \<open>
  Claim C8, amended. While a signal is active, the remaining time computed by a
  countdown tick is never negative, does not increase when the clock does not decrease,
  and is at most 120 from the creation on; it is 0 exactly when less than one second
  (1000 ms) is left to the expiry, in particular at every tick at or after the expiry.
  A tick with positive remaining time stores it in the signal and delivers the signal;
  a tick with remaining time 0 delivers the signal with 0, clears the slot and delivers
  the clearing.
\<close>

theorem countdown_remaining_time:
  assumes "currentSignal s = Some g"
  shows "0 \<le> remainingAt (expiresAt g) now
       \<and> (now \<le> now' \<longrightarrow> remainingAt (expiresAt g) now' \<le> remainingAt (expiresAt g) now)
       \<and> (expiresAt g - 120 * 1000 \<le> now \<longrightarrow> remainingAt (expiresAt g) now \<le> 120)
       \<and> (remainingAt (expiresAt g) now = 0) = (expiresAt g - now < 1000)
       \<and> (expiresAt g \<le> now \<longrightarrow> remainingAt (expiresAt g) now = 0)
       \<and> (0 < remainingAt (expiresAt g) now \<longrightarrow>
             currentSignal (countdownCallback now s)
               = Some (g\<lparr>remainingSeconds := remainingAt (expiresAt g) now\<rparr>)
           \<and> delivered (countdownCallback now s)
               = (if onSignalUpdate s
                  then delivered s @ [Some (g\<lparr>remainingSeconds := remainingAt (expiresAt g) now\<rparr>)]
                  else delivered s))
       \<and> (remainingAt (expiresAt g) now = 0 \<longrightarrow>
             currentSignal (countdownCallback now s) = None
           \<and> delivered (countdownCallback now s)
               = (if onSignalUpdate s
                  then delivered s @ [Some (g\<lparr>remainingSeconds := 0\<rparr>), None]
                  else delivered s))"
proof -
  have z: "(remainingAt (expiresAt g) now = 0) = (expiresAt g - now < 1000)"
    by (rule remainingAt_zero_iff)
  have late: "expiresAt g \<le> now \<Longrightarrow> remainingAt (expiresAt g) now = 0"
    by (simp add: z)
  have cap: "expiresAt g - 120 * 1000 \<le> now \<Longrightarrow> remainingAt (expiresAt g) now \<le> 120"
  proof -
    assume "expiresAt g - 120 * 1000 \<le> now"
    then have "expiresAt g - now \<le> 120000" by simp
    then have "(expiresAt g - now) div 1000 \<le> 120000 div 1000"
      by (intro zdiv_mono1) simp_all
    then have "(expiresAt g - now) div 1000 \<le> 120" by simp
    then show ?thesis by (simp add: remainingAt_def)
  qed
  have run: "0 < remainingAt (expiresAt g) now \<Longrightarrow>
             currentSignal (countdownCallback now s)
               = Some (g\<lparr>remainingSeconds := remainingAt (expiresAt g) now\<rparr>)
           \<and> delivered (countdownCallback now s)
               = (if onSignalUpdate s
                  then delivered s @ [Some (g\<lparr>remainingSeconds := remainingAt (expiresAt g) now\<rparr>)]
                  else delivered s)"
    by (simp add: countdownCallback_active [OF assms] Let_def)
  have stop: "remainingAt (expiresAt g) now = 0 \<Longrightarrow>
             currentSignal (countdownCallback now s) = None
           \<and> delivered (countdownCallback now s)
               = (if onSignalUpdate s
                  then delivered s @ [Some (g\<lparr>remainingSeconds := 0\<rparr>), None]
                  else delivered s)"
    by (simp add: countdownCallback_active [OF assms] Let_def clearCurrentSignal_fields)
  show ?thesis
    using remainingAt_nonneg [of "expiresAt g" now]
      remainingAt_antimono [of now now' "expiresAt g"] z late cap run stop
    by blast
qed

theorem countdown_remaining_time_witness:
  "currentSignal active_example \<noteq> None
   \<and> map_option remainingSeconds (currentSignal (countdownCallback 76000 active_example)) = Some 45
   \<and> currentSignal (countdownCallback 121000 active_example) = None"
proof -
  note g = active_example_signal(1)
  have r45: "remainingAt 121000 76000 = 45" by (simp add: remainingAt_def)
  have r0: "remainingAt 121000 121000 = 0" by (simp add: remainingAt_def)
  from countdown_remaining_time [OF g, of 76000 76000] r45
  have "currentSignal (countdownCallback 76000 active_example)
      = Some (\<lparr> sid = SignalId 1000, type = UNDER, market = MARKET,
          confidence = Num 67, createdAt = 1000, expiresAt = 121000, remainingSeconds = 120,
          distributionAnalysis = analyzeDistribution idle_example \<rparr>\<lparr>remainingSeconds := 45\<rparr>)"
    by simp
  moreover from countdown_remaining_time [OF g, of 121000 121000] r0
  have "currentSignal (countdownCallback 121000 active_example) = None"
    by simp
  ultimately show ?thesis using g by simp
qed

subsection \<open>C6: teardown\<close>

text \<open>
  Claim C6, as stated: teardown notifies the subscribers of the clearing. For the engine
  stopped 45 seconds before the end of the countdown, with a callback registered,
  \<open>destroy\<close> delivers nothing: the callback has seen the signal at 120 and at 45
  seconds and never the clearing.
\<close>

theorem destroy_sends_no_clear_counterexample:
  "map_option remainingSeconds (currentSignal mid_countdown_example) = Some 45
   \<and> onSignalUpdate mid_countdown_example
   \<and> delivered (destroy mid_countdown_example) = delivered mid_countdown_example
   \<and> map (map_option remainingSeconds) (delivered (destroy mid_countdown_example))
       = [Some 120, Some 45]
   \<and> None \<notin> set (delivered (destroy mid_countdown_example))"
proof -
  have d: "delivered (destroy mid_countdown_example) = delivered mid_countdown_example"
    by (simp add: destroy_fields)
  have m: "map (map_option remainingSeconds) (delivered mid_countdown_example) = [Some 120, Some 45]"
    by (rule mid_countdown_example_facts(3))
  have "None \<notin> set (delivered mid_countdown_example)"
    by (rule mid_countdown_example_facts(6))
  then show ?thesis by (simp add: d m mid_countdown_example_facts)
qed

text \<open>
  Claim C6, amended. \<open>destroy\<close>, in any state, issues the unsubscribe request for the
  held subscription and drops the closure, clears the countdown and the detection
  intervals and forgets their handles (so that no interval is live afterwards when every
  live interval was held in a handle field), empties the buffer, the signal slot and the
  identifier set, and marks the engine uninitialised. It delivers nothing to the
  callback.
\<close>

theorem destroy_clears_without_notifying:
  "unsubscribe (destroy s) = None
   \<and> unsubscribed (destroy s)
       = unsubscribed s @ (case unsubscribe s of None \<Rightarrow> [] | Some sub \<Rightarrow> [sub])
   \<and> countdownInterval (destroy s) = None
   \<and> signalGenerationInterval (destroy s) = None
   \<and> timers (destroy s)
       = timers s - (set_option (countdownInterval s) \<union> set_option (signalGenerationInterval s))
   \<and> (timers_tracked s \<longrightarrow> timers (destroy s) = {})
   \<and> tickBuffer (destroy s) = []
   \<and> currentSignal (destroy s) = None
   \<and> activeSignalIds (destroy s) = {}
   \<and> isInitialized (destroy s) = False
   \<and> delivered (destroy s) = delivered s"
  using tracked_destroy(3) [of s] by (simp add: destroy_fields)

theorem destroy_clears_without_notifying_witness:
  "timers_tracked mid_countdown_example
   \<and> timers mid_countdown_example = {1, 2}
   \<and> timers (destroy mid_countdown_example) = {}
   \<and> tickBuffer (destroy mid_countdown_example) = []
   \<and> currentSignal (destroy mid_countdown_example) = None"
proof -
  from destroy_clears_without_notifying [of mid_countdown_example]
    mid_countdown_example_facts(5)
  have "timers (destroy mid_countdown_example) = {}
      \<and> tickBuffer (destroy mid_countdown_example) = []
      \<and> currentSignal (destroy mid_countdown_example) = None"
    by blast
  then show ?thesis
    by (simp add: mid_countdown_example_facts(4) mid_countdown_example_facts(5))
qed

subsection \<open>C9: which deliveries are dropped\<close>

text \<open>
  Claim C9, as stated: a sample whose value is not a finite number is dropped. A tick
  whose quote is positive infinity is appended to the empty buffer.
\<close>

theorem infinite_quote_is_appended_counterexample:
  "\<not> is_finite PosInf
   \<and> tickBuffer started = []
   \<and> tickBuffer (tickCallback (Some \<lparr>raw_quote = Some PosInf, raw_epoch = Some (Num 1)\<rparr>) started)
       = [\<lparr>quote = PosInf, epoch = Num 1\<rparr>]"
  by (simp add: tickCallback_def handleTickData_def started_eq TICK_BUFFER_SIZE_def)

text \<open>
  Claim C9, amended. The tick callback changes nothing but the buffer and delivers
  nothing to the signal callback. A delivery without a tick, or whose quote or epoch
  is missing, NaN or zero (the falsy values), is dropped: the state is unchanged. A
  delivery whose quote and epoch are both truthy is ingested by \<open>handleTickData\<close>;
  a number is truthy exactly when it is neither NaN nor zero, so an infinite quote is
  ingested and a zero quote is not. The callback has no failing branch.
\<close>

theorem delivery_filters_by_truthiness:
  "delivered (tickCallback m s) = delivered s
   \<and> currentSignal (tickCallback m s) = currentSignal s
   \<and> tickCallback m s = s\<lparr>tickBuffer := tickBuffer (tickCallback m s)\<rparr>
   \<and> tickCallback None s = s
   \<and> (raw_quote t = Some q \<and> raw_epoch t = Some e \<and> truthy q \<and> truthy e \<longrightarrow>
        tickCallback (Some t) s = handleTickData \<lparr>quote = q, epoch = e\<rparr> s)
   \<and> (raw_quote t = None \<or> raw_quote t = Some NaN \<or> raw_quote t = Some (Num 0)
        \<or> raw_epoch t = None \<or> raw_epoch t = Some NaN \<or> raw_epoch t = Some (Num 0) \<longrightarrow>
        tickCallback (Some t) s = s)
   \<and> truthy q = (q \<noteq> NaN \<and> q \<noteq> Num 0)"
proof -
  have frame: "tickCallback m s = s\<lparr>tickBuffer := tickBuffer (tickCallback m s)\<rparr>"
    by (rule tickCallback_frame)
  have d: "delivered (tickCallback m s) = delivered s"
    by (subst frame) simp
  have c: "currentSignal (tickCallback m s) = currentSignal s"
    by (subst frame) simp
  have acc: "raw_quote t = Some q \<and> raw_epoch t = Some e \<and> truthy q \<and> truthy e \<longrightarrow>
        tickCallback (Some t) s = handleTickData \<lparr>quote = q, epoch = e\<rparr> s"
    by (simp add: tickCallback_def)
  have rej: "raw_quote t = None \<or> raw_quote t = Some NaN \<or> raw_quote t = Some (Num 0)
        \<or> raw_epoch t = None \<or> raw_epoch t = Some NaN \<or> raw_epoch t = Some (Num 0) \<longrightarrow>
        tickCallback (Some t) s = s"
    by (auto simp: tickCallback_def split: option.splits)
  have tr: "truthy q = (q \<noteq> NaN \<and> q \<noteq> Num 0)"
    by (cases q) simp_all
  have none: "tickCallback None s = s" by (simp add: tickCallback_def)
  show ?thesis using frame d c acc rej tr none by blast
qed

theorem delivery_filters_by_truthiness_witness:
  "tickCallback (Some \<lparr>raw_quote = Some NaN, raw_epoch = Some (Num 1)\<rparr>) started = started
   \<and> tickCallback (Some \<lparr>raw_quote = Some (Num 0), raw_epoch = Some (Num 1)\<rparr>) started = started
   \<and> tickCallback (Some \<lparr>raw_quote = Some (Num (3 / 4)), raw_epoch = Some (Num 1)\<rparr>) started
       = handleTickData hi_tick started"
  using delivery_filters_by_truthiness
      [of "None" started "\<lparr>raw_quote = Some NaN, raw_epoch = Some (Num 1)\<rparr>" NaN NaN]
    delivery_filters_by_truthiness
      [of "None" started "\<lparr>raw_quote = Some (Num 0), raw_epoch = Some (Num 1)\<rparr>" NaN NaN]
    delivery_filters_by_truthiness
      [of "None" started "\<lparr>raw_quote = Some (Num (3 / 4)), raw_epoch = Some (Num 1)\<rparr>"
          "Num (3 / 4)" "Num 1"]
  by (simp add: hi_tick_def)

end
